theory Spec2Isabelle
  imports Complex_Main
begin

section \<open>Python string operations used by the bot\<close>

text \<open>
  A Python string is modelled by its UTF-8 bytes (\<open>char list\<close>). The operations below are
  the ones \<^verbatim>\<open>main.py\<close> applies to error texts, callback data, titles and format
  specifiers: \<^verbatim>\<open>str.lower\<close> (on the ASCII letters), \<^verbatim>\<open>sub in s\<close>, \<^verbatim>\<open>s.endswith(ext)\<close>,
  \<^verbatim>\<open>s.startswith(p)\<close>, \<^verbatim>\<open>s.split(c)\<close>, \<^verbatim>\<open>s.split(c, n)\<close>,
  \<^verbatim>\<open>s.replace(a, b)\<close> for one-character ASCII \<open>a\<close>, \<open>b\<close>, \<open>c\<close>, and the slice
  \<^verbatim>\<open>s[:n]\<close>, which counts code points, not bytes.
\<close>

text \<open>A byte \<open>10xxxxxx\<close> continues a code point; any other byte starts one.\<close>

definition is_continuation :: "char \<Rightarrow> bool" where
  "is_continuation c = (128 \<le> (of_char c :: nat) \<and> (of_char c :: nat) < 192)"

text \<open>\<^verbatim>\<open>s[:n]\<close>: the bytes of the first \<open>n\<close> code points.\<close>

fun take_chars :: "nat \<Rightarrow> string \<Rightarrow> string" where
  "take_chars n [] = []"
| "take_chars n (c # cs) =
     (if is_continuation c then c # take_chars n cs
      else if n = 0 then []
      else c # take_chars (n - 1) cs)"

definition lower_char :: "char \<Rightarrow> char" where
  "lower_char c =
     (case map_of (zip ''ABCDEFGHIJKLMNOPQRSTUVWXYZ'' ''abcdefghijklmnopqrstuvwxyz'') c of
        None \<Rightarrow> c
      | Some l \<Rightarrow> l)"

definition lower :: "string \<Rightarrow> string" where
  "lower s = map lower_char s"

fun startswith :: "string \<Rightarrow> string \<Rightarrow> bool" where
  "startswith s [] = True"
| "startswith [] (p # ps) = False"
| "startswith (c # cs) (p # ps) = (c = p \<and> startswith cs ps)"

definition endswith :: "string \<Rightarrow> string \<Rightarrow> bool" where
  "endswith s ext = startswith (rev s) (rev ext)"

text \<open>\<open>py_in sub s\<close> is Python's \<^verbatim>\<open>sub in s\<close>: \<open>sub\<close> occurs in \<open>s\<close> as a
  contiguous substring.\<close>

fun py_in :: "string \<Rightarrow> string \<Rightarrow> bool" where
  "py_in sub [] = (sub = [])"
| "py_in sub (c # cs) = (startswith (c # cs) sub \<or> py_in sub cs)"

text \<open>\<open>split_acc sep cur s\<close> splits \<open>s\<close> at every \<open>sep\<close>; \<open>cur\<close> is the piece
  being read, reversed. The result is never empty, as for \<^verbatim>\<open>str.split(sep)\<close>.\<close>

fun split_acc :: "char \<Rightarrow> string \<Rightarrow> string \<Rightarrow> string list" where
  "split_acc sep cur [] = [rev cur]"
| "split_acc sep cur (c # cs) =
     (if c = sep then rev cur # split_acc sep [] cs
      else split_acc sep (c # cur) cs)"

definition py_split :: "char \<Rightarrow> string \<Rightarrow> string list" where
  "py_split sep s = split_acc sep [] s"

text \<open>\<^verbatim>\<open>s.split(sep, n)\<close>: at most \<open>n\<close> splits, the rest of the string is the
  last piece.\<close>

fun splitn_acc :: "char \<Rightarrow> nat \<Rightarrow> string \<Rightarrow> string \<Rightarrow> string list" where
  "splitn_acc sep 0 cur s = [rev cur @ s]"
| "splitn_acc sep (Suc n) cur [] = [rev cur]"
| "splitn_acc sep (Suc n) cur (c # cs) =
     (if c = sep then rev cur # splitn_acc sep n [] cs
      else splitn_acc sep (Suc n) (c # cur) cs)"

definition py_splitn :: "char \<Rightarrow> nat \<Rightarrow> string \<Rightarrow> string list" where
  "py_splitn sep n s = splitn_acc sep n [] s"

definition replace_char :: "char \<Rightarrow> char \<Rightarrow> string \<Rightarrow> string" where
  "replace_char a b s = map (\<lambda>c. if c = a then b else c) s"

text \<open>\<^verbatim>\<open>any(keyword in error_msg for keyword in keywords)\<close>\<close>

definition any_keyword :: "string list \<Rightarrow> string \<Rightarrow> bool" where
  "any_keyword keywords error_msg = list_ex (\<lambda>keyword. py_in keyword error_msg) keywords"

section \<open>Quality resolver (\<^verbatim>\<open>quality_map\<close> in \<^verbatim>\<open>button_callback\<close>)\<close>

datatype py_error = KeyError string | IndexError

definition quality_map :: "(string \<times> string) list" where
  "quality_map =
     [(''best'', ''136+140/best[height<=720]/18''),
      (''1080'', ''137+140/best[height<=1080]''),
      (''720'', ''136+140/best[height<=720]/134+140''),
      (''480'', ''135+140/best[height<=480]/134+140''),
      (''audio'', ''bestaudio[ext=m4a]/bestaudio'')]"

text \<open>\<^verbatim>\<open>quality_map[quality]\<close>: a missing key raises \<^verbatim>\<open>KeyError\<close>.\<close>

definition quality_lookup :: "string \<Rightarrow> py_error + string" where
  "quality_lookup quality =
     (case map_of quality_map quality of
        None \<Rightarrow> Inl (KeyError quality)
      | Some spec \<Rightarrow> Inr spec)"


section \<open>Extraction adapters\<close>

text \<open>
  The extraction engine (\<^verbatim>\<open>yt_dlp.YoutubeDL\<close>), the file system and the messaging
  platform are external. Their answers during one request are the fields of \<open>env\<close>;
  the calls the bot makes are recorded as events, in order. Logging has no effect on
  results and is left out.
\<close>

datatype media_kind = Video | Audio

text \<open>The dict an adapter returns: \<^verbatim>\<open>{'success': True, 'file_path': .., 'title': ..,
  'type': ..}\<close> or \<^verbatim>\<open>{'error': ..}\<close>.\<close>

datatype dl_result = Success string string media_kind | Error string

text \<open>What \<^verbatim>\<open>info['duration']\<close> can hold: no such key, \<^verbatim>\<open>None\<close>, or a number
  (an int or a finite float, both rationals).\<close>

datatype py_value = Absent | PyNone | Number rat

record info =
  info_title :: "string option"
  info_id :: "string option"
  info_duration :: py_value

datatype upload_outcome = Sent | Raised string

record env =
  temp_dir :: string
  cookies_exist :: bool
  probe :: "string + info"
  fetch :: "string option"
  exists_file :: "string \<Rightarrow> bool"
  listing :: "string list"
  recent :: "string \<Rightarrow> bool"
  timed_out :: bool
  file_size :: nat
  upload :: "nat \<Rightarrow> upload_outcome"

text \<open>
  \<^item> \<open>cookies_exist\<close>: \<^verbatim>\<open>self.youtube_cookies.exists()\<close> (\<^verbatim>\<open>self.instagram_cookies\<close>
    in the Instagram flow);
  \<^item> \<open>probe\<close>: \<^verbatim>\<open>ydl.extract_info(url, download=False)\<close>, \<open>Inl e\<close> when it raises
    an exception whose text is \<open>e\<close>;
  \<^item> \<open>fetch\<close>: \<^verbatim>\<open>ydl.download([url])\<close>, \<open>Some e\<close> when it raises;
  \<^item> \<open>exists_file p\<close>: \<^verbatim>\<open>os.path.exists(p)\<close> after the download;
  \<^item> \<open>listing\<close>: \<^verbatim>\<open>os.listdir(self.temp_dir)\<close> after the download;
  \<^item> \<open>recent p\<close>: \<^verbatim>\<open>os.path.getctime(p) > time.time() - 30\<close>;
  \<^item> \<open>timed_out\<close>: \<^verbatim>\<open>asyncio.wait_for\<close> raises \<^verbatim>\<open>TimeoutError\<close>. Both adapters are
    coroutines without a suspension point (their bodies contain no \<^verbatim>\<open>await\<close>), so they
    run to their \<^verbatim>\<open>return\<close> before \<^verbatim>\<open>wait_for\<close> can raise: the calls of the adapter are
    made whatever \<open>timed_out\<close> says;
  \<^item> \<open>file_size\<close>: \<^verbatim>\<open>os.path.getsize(file_path)\<close>, in bytes;
  \<^item> \<open>upload n\<close>: the outcome of the \<open>n\<close>-th call (from 0) of
    \<^verbatim>\<open>reply_video\<close>, \<^verbatim>\<open>reply_audio\<close> or \<^verbatim>\<open>reply_document\<close> of the request.
\<close>

record ydl_opts =
  format_spec :: string
  outtmpl :: string
  cookiefile :: "string option"
  extract_audio :: bool

datatype ydl_call = ExtractInfo ydl_opts string | Download ydl_opts string

text \<open>\<^verbatim>\<open>os.path.join(dir, name)\<close> (POSIX): an absolute \<open>name\<close> replaces \<open>dir\<close>; a
  separator is added unless \<open>dir\<close> is empty or ends with one.\<close>

definition path_join :: "string \<Rightarrow> string \<Rightarrow> string" where
  "path_join dir name =
     (if startswith name ''/'' then name
      else if dir = [] \<or> endswith dir ''/'' then dir @ name
      else dir @ ''/'' @ name)"

definition path_exists :: "env \<Rightarrow> string \<Rightarrow> bool" where
  "path_exists env p = exists_file env p"

text \<open>\<^verbatim>\<open>quality.split('+')[0].replace('/', '_')[:10]\<close>, \<^verbatim>\<open>'video'\<close> on IndexError.\<close>

definition quality_suffix :: "string \<Rightarrow> string" where
  "quality_suffix quality =
     (case py_split CHR ''+'' quality of
        [] \<Rightarrow> ''video''
      | p # _ \<Rightarrow> take_chars 10 (replace_char CHR ''/'' CHR ''_'' p))"

definition youtube_opts :: "env \<Rightarrow> string \<Rightarrow> ydl_opts" where
  "youtube_opts env quality =
     \<lparr> format_spec = (if quality = ''bestaudio'' then ''bestaudio/best'' else quality),
       outtmpl = path_join (temp_dir env) (''%(id)s_'' @ quality_suffix quality @ ''.%(ext)s''),
       cookiefile = (if cookies_exist env then Some ''youtube.com_cookies.txt'' else None),
       extract_audio = (quality = ''bestaudio'') \<rparr>"

definition youtube_auth_keywords :: "string list" where
  "youtube_auth_keywords =
     [''login'', ''sign in'', ''private'', ''unavailable'', ''members only'', ''age-restricted'']"

text \<open>The \<^verbatim>\<open>except Exception as e\<close> handler of \<^verbatim>\<open>download_youtube_video\<close>;
  \<open>e\<close> is \<^verbatim>\<open>str(e)\<close>.\<close>

definition youtube_error :: "env \<Rightarrow> string \<Rightarrow> dl_result" where
  "youtube_error env e =
     (let error_msg = lower e in
      if any_keyword youtube_auth_keywords error_msg then
        (if cookies_exist env
         then Error ''Video requires authentication. Please update your YouTube cookies file.''
         else Error ''Video requires authentication. Please add your YouTube cookies file.'')
      else if py_in ''requested format not available'' error_msg then
        Error ''Requested video quality not available. Try a different quality option.''
      else Error (''Download failed: '' @ e))"

definition expected_extensions :: "string \<Rightarrow> string list" where
  "expected_extensions quality =
     (if py_in ''bestaudio'' quality then [''.mp4'', ''.webm'', ''.mkv'', ''.mp3'']
      else [''.mp4'', ''.webm'', ''.mkv''])"

text \<open>The two search loops after the download: the exact expected name first, then any
  listed file that contains the video id and ends with an expected extension.\<close>

definition youtube_locate :: "env \<Rightarrow> string \<Rightarrow> string \<Rightarrow> string \<Rightarrow> dl_result" where
  "youtube_locate env quality video_id title =
     (let exts = expected_extensions quality;
          kind = (if quality = ''bestaudio'' then Audio else Video);
          exact = map (\<lambda>ext. path_join (temp_dir env) (video_id @ ''_'' @ quality_suffix quality @ ext)) exts
      in case find (path_exists env) exact of
           Some file_path \<Rightarrow> Success file_path title kind
         | None \<Rightarrow>
             (case find (\<lambda>file. py_in video_id file \<and> list_ex (endswith file) exts) (listing env) of
                Some file \<Rightarrow> Success (path_join (temp_dir env) file) title kind
              | None \<Rightarrow> Error ''Download completed but file not found''))"

text \<open>\<^verbatim>\<open>duration and duration > 600\<close>, for \<^verbatim>\<open>duration = info.get('duration', 0)\<close>.\<close>

definition too_long :: "py_value \<Rightarrow> bool" where
  "too_long d =
     (case d of
        Absent \<Rightarrow> False
      | PyNone \<Rightarrow> False
      | Number x \<Rightarrow> x \<noteq> 0 \<and> x > 600)"

definition download_youtube_video :: "env \<Rightarrow> string \<Rightarrow> string \<Rightarrow> dl_result \<times> ydl_call list" where
  "download_youtube_video env url quality =
     (let opts = youtube_opts env quality in
      case probe env of
        Inl e \<Rightarrow> (youtube_error env e, [ExtractInfo opts url])
      | Inr info \<Rightarrow>
          (let title = (case info_title info of None \<Rightarrow> ''Unknown'' | Some t \<Rightarrow> t);
               video_id = (case info_id info of None \<Rightarrow> ''unknown'' | Some i \<Rightarrow> i)
           in if too_long (info_duration info) then
                (Error ''Video is too long (max 10 minutes allowed)'', [ExtractInfo opts url])
              else
                (case fetch env of
                   Some e \<Rightarrow> (youtube_error env e, [ExtractInfo opts url, Download opts url])
                 | None \<Rightarrow>
                     (youtube_locate env quality video_id title,
                      [ExtractInfo opts url, Download opts url]))))"

definition instagram_opts :: "env \<Rightarrow> ydl_opts" where
  "instagram_opts env =
     \<lparr> format_spec = ''best[ext=mp4]/best'',
       outtmpl = path_join (temp_dir env) ''%(id)s.%(ext)s'',
       cookiefile = (if cookies_exist env then Some ''instagram.com_cookies.txt'' else None),
       extract_audio = False \<rparr>"

definition instagram_auth_keywords :: "string list" where
  "instagram_auth_keywords = [''login'', ''sign in'', ''private'', ''unavailable'']"

definition instagram_error :: "env \<Rightarrow> string \<Rightarrow> dl_result" where
  "instagram_error env e =
     (let error_msg = lower e in
      if any_keyword instagram_auth_keywords error_msg then
        (if cookies_exist env
         then Error ''Content requires authentication. Please update your Instagram cookies file.''
         else Error ''Content requires authentication. Please add your Instagram cookies file.'')
      else Error (''Download failed: '' @ e))"

definition instagram_locate :: "env \<Rightarrow> string \<Rightarrow> string \<Rightarrow> dl_result" where
  "instagram_locate env video_id title =
     (let exts = [''.mp4'', ''.webm'', ''.mkv''];
          exact = map (\<lambda>ext. path_join (temp_dir env) (video_id @ ext)) exts
      in case find (path_exists env) exact of
           Some file_path \<Rightarrow> Success file_path title Video
         | None \<Rightarrow>
             (case find (\<lambda>file. list_ex (endswith file) exts
                                \<and> recent env (path_join (temp_dir env) file)) (listing env) of
                Some file \<Rightarrow> Success (path_join (temp_dir env) file) title Video
              | None \<Rightarrow> Error ''Download completed but video file not found''))"

definition download_instagram_content :: "env \<Rightarrow> string \<Rightarrow> dl_result \<times> ydl_call list" where
  "download_instagram_content env url =
     (let opts = instagram_opts env in
      case probe env of
        Inl e \<Rightarrow> (instagram_error env e, [ExtractInfo opts url])
      | Inr info \<Rightarrow>
          (let title = (case info_title info of None \<Rightarrow> ''Instagram_Video'' | Some t \<Rightarrow> t);
               video_id = (case info_id info of None \<Rightarrow> ''instagram_video'' | Some i \<Rightarrow> i)
           in case fetch env of
                Some e \<Rightarrow> (instagram_error env e, [ExtractInfo opts url, Download opts url])
              | None \<Rightarrow>
                  (instagram_locate env video_id title,
                   [ExtractInfo opts url, Download opts url])))"

section \<open>Transfer orchestrators\<close>

text \<open>
  A user-visible message is one constructor per message template of the source, with the
  values the template interpolates (sizes in bytes; the source prints them in MB with
  one decimal).
\<close>

datatype msg =
    StartingYoutube
  | InvalidButtonData
  | Downloading
  | ErrorMsg string
  | Downloaded nat string
  | LargerThanExpected nat nat
  | TooLarge2GB
  | LargeUploading nat
  | LargeCompleted
  | LargeMaybeUploading nat
  | LargeUploadFailed string nat
  | Uploading nat
  | Retrying nat nat
  | MaybeUploading nat
  | UploadFailed string nat
  | Completed
  | FailedAfter nat nat
  | DownloadTimedOut
  | TooLarge50MB
  | InstagramTimedOut

text \<open>
  \<^item> \<open>ErrorMsg e\<close>: \<^verbatim>\<open>Error: {result['error']}\<close>;
  \<^item> \<open>Downloaded size quality\<close>: \<^verbatim>\<open>Downloaded! File size: .. Format used: .. Preparing upload...\<close>;
  \<^item> \<open>LargerThanExpected size expected_mb\<close>: \<^verbatim>\<open>Warning: File is larger than expected ..\<close>;
  \<^item> \<open>TooLarge2GB\<close>: \<^verbatim>\<open>File is too large (>2GB). This video cannot be sent via Telegram.\<close>;
  \<^item> \<open>LargeUploading size\<close>: \<^verbatim>\<open>File is large (..). Uploading as document...\<close>;
  \<^item> \<open>LargeCompleted\<close>: \<^verbatim>\<open>Upload completed! Large file sent as document.\<close>;
  \<^item> \<open>LargeMaybeUploading size\<close>: \<^verbatim>\<open>Large file upload is taking longer than expected (..).
    The file may still be uploading in the background. Please wait...\<close>;
  \<^item> \<open>LargeUploadFailed e size\<close>: \<^verbatim>\<open>Upload failed: {e}. File: .. MB. Please try a lower quality.\<close>;
  \<^item> \<open>Uploading size\<close>: \<^verbatim>\<open>Uploading to Telegram... (..)\<close>;
  \<^item> \<open>Retrying n size\<close>: \<^verbatim>\<open>Upload attempt {n} timed out. Retrying... (..)\<close>;
  \<^item> \<open>MaybeUploading size\<close>: \<^verbatim>\<open>Upload is taking longer than expected (..). The file may
    still be uploading in the background. Please wait a moment...\<close>;
  \<^item> \<open>UploadFailed e size\<close>: \<^verbatim>\<open>Upload failed: {e}. File: .. MB.\<close>;
  \<^item> \<open>Completed\<close>: \<^verbatim>\<open>Download completed!\<close>;
  \<^item> \<open>FailedAfter n size\<close>: \<^verbatim>\<open>Upload failed after {n} attempts. File: .. MB. Please try
    again or use a lower quality.\<close>;
  \<^item> \<open>DownloadTimedOut\<close>: \<^verbatim>\<open>Download timed out after 5 minutes. ..\<close>;
  \<^item> \<open>TooLarge50MB\<close>: \<^verbatim>\<open>File is too large (>50MB).\<close>;
  \<^item> \<open>InstagramTimedOut\<close>: \<^verbatim>\<open>Download timed out. Please try again.\<close>.
\<close>

text \<open>The three delivery calls: \<open>ReplyVideo file title\<close>, \<open>ReplyAudio file title size\<close>
  (the size is in the caption on the large-file path only) and
  \<open>ReplyDocument file title size filename\<close>.\<close>

datatype upload_call =
    ReplyVideo string string
  | ReplyAudio string string "nat option"
  | ReplyDocument string string nat string

datatype event =
    Answer
  | SendAction
  | Edit msg
  | Reply msg
  | WaitFor nat
  | Ydl ydl_call
  | Upload upload_call
  | Sleep nat
  | Remove string
  | Raise py_error

text \<open>
  \<open>Edit\<close> is \<^verbatim>\<open>query.edit_message_text\<close>, \<open>Reply\<close> is \<^verbatim>\<open>update.message.reply_text\<close>,
  \<open>WaitFor n\<close> is entering \<^verbatim>\<open>asyncio.wait_for(.., timeout=n)\<close>, \<open>Sleep n\<close> is
  \<^verbatim>\<open>asyncio.sleep(n)\<close>, \<open>Remove p\<close> is \<^verbatim>\<open>os.remove(p)\<close> (its failure is swallowed by the
  bare \<^verbatim>\<open>except\<close>), \<open>Raise\<close> is an exception leaving the handler. Status messages,
  \<^verbatim>\<open>open\<close> and \<^verbatim>\<open>os.path.getsize\<close> are taken to succeed.
\<close>

definition is_timeout :: "string \<Rightarrow> bool" where
  "is_timeout error_msg =
     (py_in ''timeout'' (lower error_msg) \<or> py_in ''timed out'' (lower error_msg))"

definition max_retries :: nat where
  "max_retries = 3"

definition max_size :: nat where
  "max_size = 2 * 1024 * 1024 * 1024"

definition small_limit :: nat where
  "small_limit = 50 * 1024 * 1024"

text \<open>How the retry loop was left: by \<^verbatim>\<open>return\<close>, or by \<^verbatim>\<open>break\<close> or exhaustion with
  the value of \<^verbatim>\<open>upload_success\<close>.\<close>

datatype loop_exit = Returned | Finished bool

definition small_call :: "string \<Rightarrow> string \<Rightarrow> media_kind \<Rightarrow> upload_call" where
  "small_call file_path title kind =
     (case kind of
        Audio \<Rightarrow> ReplyAudio file_path title None
      | Video \<Rightarrow> ReplyVideo file_path title)"

definition large_call :: "string \<Rightarrow> string \<Rightarrow> media_kind \<Rightarrow> nat \<Rightarrow> upload_call" where
  "large_call file_path title kind sz =
     (case kind of
        Audio \<Rightarrow> ReplyAudio file_path title (Some sz)
      | Video \<Rightarrow> ReplyDocument file_path title sz (take_chars 50 title @ ''.mp4''))"

text \<open>\<^verbatim>\<open>for attempt in range(max_retries)\<close>, over the list of attempt numbers.\<close>

fun upload_retry ::
  "env \<Rightarrow> string \<Rightarrow> string \<Rightarrow> media_kind \<Rightarrow> nat list \<Rightarrow> event list \<times> loop_exit" where
  "upload_retry env file_path title kind [] = ([], Finished False)"
| "upload_retry env file_path title kind (attempt # rest) =
     (case upload env attempt of
        Sent \<Rightarrow> ([Upload (small_call file_path title kind)], Finished True)
      | Raised error_msg \<Rightarrow>
          if is_timeout error_msg \<and> attempt < max_retries - 1 then
            (case upload_retry env file_path title kind rest of
               (evs, ex) \<Rightarrow>
                 (Upload (small_call file_path title kind)
                    # Edit (Retrying (attempt + 1) (file_size env)) # Sleep 2 # evs, ex))
          else if is_timeout error_msg then
            ([Upload (small_call file_path title kind),
              Edit (MaybeUploading (file_size env)), Sleep 10], Returned)
          else
            ([Upload (small_call file_path title kind),
              Edit (UploadFailed error_msg (file_size env))], Returned))"

definition expected_sizes :: "(string \<times> nat) list" where
  "expected_sizes = [(''480'', 30), (''720'', 50), (''best'', 50), (''1080'', 150)]"

text \<open>\<^verbatim>\<open>query.data.split('_')[1] if '_' in query.data else 'best'\<close>, \<^verbatim>\<open>'best'\<close> on
  IndexError.\<close>

definition quality_key :: "string \<Rightarrow> string" where
  "quality_key data =
     (if py_in ''_'' data then
        (case py_split CHR ''_'' data of
           _ # k # _ \<Rightarrow> k
         | _ \<Rightarrow> ''best'')
      else ''best'')"

definition expected_mb :: "string \<Rightarrow> nat" where
  "expected_mb data =
     (case map_of expected_sizes (quality_key data) of
        None \<Rightarrow> 50
      | Some mb \<Rightarrow> mb)"

text \<open>The part of \<^verbatim>\<open>process_youtube_download\<close> after a successful download.
  \<^verbatim>\<open>file_size > expected_mb * 1024 * 1024 * 1.5\<close> is compared exactly, as Python compares
  an int with a float.\<close>

definition deliver_youtube ::
  "env \<Rightarrow> string \<Rightarrow> string \<Rightarrow> string \<Rightarrow> string \<Rightarrow> media_kind \<Rightarrow> event list" where
  "deliver_youtube env data quality file_path title kind =
     (let sz = file_size env in
      Edit (Downloaded sz quality) #
      (if 2 * sz > 3 * (expected_mb data * 1024 * 1024)
       then [Edit (LargerThanExpected sz (expected_mb data))] else []) @
      (if sz > max_size then [Edit TooLarge2GB]
       else if sz > small_limit then
         Edit (LargeUploading sz) # Upload (large_call file_path title kind sz) #
         (case upload env 0 of
            Sent \<Rightarrow> [Edit LargeCompleted, Remove file_path]
          | Raised error_msg \<Rightarrow>
              if is_timeout error_msg
              then [Edit (LargeMaybeUploading sz), Remove file_path]
              else [Edit (LargeUploadFailed error_msg sz)])
       else
         Edit (Uploading sz) #
         (case upload_retry env file_path title kind [0..<max_retries] of
            (evs, Returned) \<Rightarrow> evs
          | (evs, Finished ok) \<Rightarrow>
              evs @ [Edit (if ok then Completed else FailedAfter max_retries sz),
                     Remove file_path])))"

definition process_youtube_download :: "env \<Rightarrow> string \<Rightarrow> string \<Rightarrow> string \<Rightarrow> event list" where
  "process_youtube_download env data url quality =
     [SendAction, Edit Downloading, WaitFor 300] @
     (case download_youtube_video env url quality of
        (result, calls) \<Rightarrow>
          map Ydl calls @
          (if timed_out env then [Edit DownloadTimedOut]
           else
             (case result of
                Error e \<Rightarrow> [Edit (ErrorMsg e)]
              | Success file_path title kind \<Rightarrow>
                  deliver_youtube env data quality file_path title kind)))"

text \<open>\<^verbatim>\<open>button_callback\<close> for callback data \<open>data\<close>; \<^verbatim>\<open>quality_map[quality]\<close> is evaluated
  after the "Starting YouTube download..." edit.\<close>

definition button_callback :: "env \<Rightarrow> string \<Rightarrow> event list" where
  "button_callback env data =
     Answer #
     (if startswith data ''yt_'' then
        (case py_splitn CHR ''_'' 2 data of
           _ # quality # url # _ \<Rightarrow>
             Edit StartingYoutube #
             (case quality_lookup quality of
                Inl err \<Rightarrow> [Raise err]
              | Inr spec \<Rightarrow> process_youtube_download env data url spec)
         | _ \<Rightarrow> [Edit InvalidButtonData])
      else [])"

definition process_instagram_download :: "env \<Rightarrow> string \<Rightarrow> event list" where
  "process_instagram_download env url =
     [SendAction, WaitFor 120] @
     (case download_instagram_content env url of
        (result, calls) \<Rightarrow>
          map Ydl calls @
          (if timed_out env then [Reply InstagramTimedOut]
           else
             (case result of
                Error e \<Rightarrow> [Reply (ErrorMsg e)]
              | Success file_path title kind \<Rightarrow>
                  if file_size env > 50 * 1024 * 1024 then [Reply TooLarge50MB]
                  else
                    Upload (ReplyVideo file_path title) #
                    (case upload env 0 of
                       Sent \<Rightarrow> [Reply Completed, Remove file_path]
                     | Raised e \<Rightarrow> [Reply (UploadFailed e (file_size env))]))))"

section \<open>Observations on a trace\<close>

fun uploads :: "event list \<Rightarrow> upload_call list" where
  "uploads [] = []"
| "uploads (Upload c # es) = c # uploads es"
| "uploads (e # es) = uploads es"

fun removes :: "event list \<Rightarrow> string list" where
  "removes [] = []"
| "removes (Remove p # es) = p # removes es"
| "removes (e # es) = removes es"

fun messages :: "event list \<Rightarrow> msg list" where
  "messages [] = []"
| "messages (Edit m # es) = m # messages es"
| "messages (Reply m # es) = m # messages es"
| "messages (e # es) = messages es"

fun downloads :: "event list \<Rightarrow> (ydl_opts \<times> string) list" where
  "downloads [] = []"
| "downloads (Ydl (Download opts url) # es) = (opts, url) # downloads es"
| "downloads (e # es) = downloads es"

fun waits :: "event list \<Rightarrow> nat list" where
  "waits [] = []"
| "waits (WaitFor n # es) = n # waits es"
| "waits (e # es) = waits es"

section \<open>Sample requests\<close>

text \<open>A request for the \<^verbatim>\<open>best\<close> quality of a 100-second video whose download leaves
  \<^verbatim>\<open>abc_136.mp4\<close> (10 MiB) in the temporary directory, every upload succeeding. The
  examples below vary single fields of it.\<close>

definition sample_env :: env where
  "sample_env =
     \<lparr> temp_dir = ''/tmp/dl'', cookies_exist = True,
       probe = Inr \<lparr> info_title = Some ''Clip'', info_id = Some ''abc'',
                     info_duration = Number 100 \<rparr>,
       fetch = None, exists_file = (\<lambda>p. p = ''/tmp/dl/abc_136.mp4''),
       listing = [''abc_136.mp4''], recent = (\<lambda>_. False),
       timed_out = False, file_size = 10 * 1024 * 1024, upload = (\<lambda>_. Sent) \<rparr>"

definition sample_quality :: string where
  "sample_quality = ''136+140/best[height<=720]/18''"

definition sample_opts :: ydl_opts where
  "sample_opts =
     \<lparr> format_spec = ''136+140/best[height<=720]/18'',
       outtmpl = ''/tmp/dl/%(id)s_136.%(ext)s'',
       cookiefile = Some ''youtube.com_cookies.txt'',
       extract_audio = False \<rparr>"

definition sample_url :: string where
  "sample_url = ''https://youtu.be/abc''"

definition sample_data :: string where
  "sample_data = ''yt_best_https://youtu.be/abc''"

section \<open>Evaluation of the model\<close>

lemmas eval_defs =
  process_youtube_download_def download_youtube_video_def youtube_opts_def too_long_def
  youtube_locate_def youtube_error_def deliver_youtube_def expected_mb_def quality_key_def
  expected_sizes_def py_split_def quality_suffix_def replace_char_def path_join_def
  path_exists_def expected_extensions_def max_size_def small_limit_def max_retries_def
  is_timeout_def lower_def lower_char_def endswith_def small_call_def large_call_def
  any_keyword_def youtube_auth_keywords_def instagram_auth_keywords_def
  process_instagram_download_def download_instagram_content_def instagram_opts_def
  instagram_locate_def instagram_error_def is_continuation_def Let_def upt_rec

lemmas sample_defs = sample_env_def sample_quality_def sample_opts_def sample_url_def sample_data_def

section \<open>The quality resolver\<close>






section \<open>The extraction adapters\<close>

lemma youtube_error_not_too_long:
  "youtube_error env e \<noteq> Error ''Video is too long (max 10 minutes allowed)''"
  by (simp add: youtube_error_def Let_def)

lemma youtube_locate_not_too_long:
  "youtube_locate env quality video_id title \<noteq>
     Error ''Video is too long (max 10 minutes allowed)''"
  by (simp add: youtube_locate_def Let_def split: option.splits)

text \<open>
  Claim C5. When the probe reports a duration greater than 600 seconds,
  \<^verbatim>\<open>download_youtube_video\<close> returns the error "Video is too long (max 10 minutes allowed)"
  and its only call of the extraction engine is the metadata probe: \<^verbatim>\<open>ydl.download\<close> is
  not invoked.
\<close>

theorem duration_ceiling:
  assumes "probe env = Inr info" and "info_duration info = Number d" and "d > 600"
  shows "download_youtube_video env url quality =
           (Error ''Video is too long (max 10 minutes allowed)'',
            [ExtractInfo (youtube_opts env quality) url])
         \<and> (\<forall>opts u. Download opts u \<notin> set (snd (download_youtube_video env url quality)))"
  using assms by (simp add: download_youtube_video_def too_long_def Let_def)

theorem duration_ceiling_witness:
  "(601 :: rat) > 600
   \<and> download_youtube_video
        (sample_env\<lparr>probe := Inr \<lparr>info_title = Some ''Clip'', info_id = Some ''abc'',
                                     info_duration = Number 601\<rparr>\<rparr>)
        ''https://youtu.be/abc'' sample_quality =
        (Error ''Video is too long (max 10 minutes allowed)'',
         [ExtractInfo sample_opts ''https://youtu.be/abc''])"
  using duration_ceiling
          [of "sample_env\<lparr>probe := Inr \<lparr>info_title = Some ''Clip'', info_id = Some ''abc'',
                                          info_duration = Number 601\<rparr>\<rparr>"
              "\<lparr>info_title = Some ''Clip'', info_id = Some ''abc'', info_duration = Number 601\<rparr>"
              601 "''https://youtu.be/abc''" sample_quality]
  by (simp add: sample_defs youtube_opts_def quality_suffix_def py_split_def replace_char_def
                path_join_def endswith_def is_continuation_def)

text \<open>
  Claim C10. \<^verbatim>\<open>download_youtube_video\<close> returns the duration-ceiling error if and only if
  the probe succeeds and reports a number that is non-zero (truthy) and greater than 600.
  When the probe reports no duration, \<^verbatim>\<open>None\<close> or 0, the check is skipped and
  \<^verbatim>\<open>ydl.download\<close> is invoked.
\<close>

theorem duration_ceiling_iff:
  "(fst (download_youtube_video env url quality) =
      Error ''Video is too long (max 10 minutes allowed)''
      \<longleftrightarrow> (\<exists>info d. probe env = Inr info \<and> info_duration info = Number d
                      \<and> d \<noteq> 0 \<and> d > 600))
   \<and> (\<forall>info. probe env = Inr info \<and> info_duration info \<in> {Absent, PyNone, Number 0}
        \<longrightarrow> snd (download_youtube_video env url quality) =
              [ExtractInfo (youtube_opts env quality) url,
               Download (youtube_opts env quality) url])"
  using youtube_error_not_too_long youtube_locate_not_too_long
  by (auto simp: download_youtube_video_def too_long_def Let_def
           split: sum.splits option.splits py_value.splits)

theorem duration_ceiling_iff_witness:
  "download_youtube_video
     (sample_env\<lparr>probe := Inr \<lparr>info_title = Some ''Clip'', info_id = Some ''abc'',
                                  info_duration = PyNone\<rparr>\<rparr>)
     ''https://youtu.be/abc'' sample_quality =
     (Success ''/tmp/dl/abc_136.mp4'' ''Clip'' Video,
      [ExtractInfo sample_opts ''https://youtu.be/abc'',
       Download sample_opts ''https://youtu.be/abc''])"
  using duration_ceiling_iff
          [of "sample_env\<lparr>probe := Inr \<lparr>info_title = Some ''Clip'', info_id = Some ''abc'',
                                          info_duration = PyNone\<rparr>\<rparr>"
              "''https://youtu.be/abc''" sample_quality]
  by (simp add: sample_defs eval_defs)

lemma youtube_error_auth:
  "any_keyword youtube_auth_keywords (lower e) \<Longrightarrow>
   youtube_error env e =
     Error (if cookies_exist env
            then ''Video requires authentication. Please update your YouTube cookies file.''
            else ''Video requires authentication. Please add your YouTube cookies file.'')"
  by (simp add: youtube_error_def Let_def)

lemma instagram_error_auth:
  "any_keyword instagram_auth_keywords (lower e) \<Longrightarrow>
   instagram_error env e =
     Error (if cookies_exist env
            then ''Content requires authentication. Please update your Instagram cookies file.''
            else ''Content requires authentication. Please add your Instagram cookies file.'')"
  by (simp add: instagram_error_def Let_def)

lemma instagram_error_other:
  "\<not> any_keyword instagram_auth_keywords (lower e) \<Longrightarrow>
   instagram_error env e = Error (''Download failed: '' @ e)"
  by (simp add: instagram_error_def Let_def)

text \<open>
  Claim C9, as the code has it. An exception of the probe or of the download whose
  lower-cased text contains \<open>login\<close>, \<open>sign in\<close>, \<open>private\<close>, \<open>unavailable\<close>,
  \<open>members only\<close> or \<open>age-restricted\<close> makes \<^verbatim>\<open>download_youtube_video\<close> return the
  authentication message, which asks to update the cookie file when it exists and to add
  it when it does not. \<^verbatim>\<open>download_instagram_content\<close> returns its authentication message
  exactly when the text contains one of the first four keywords; for every other text,
  those with \<open>members only\<close> or \<open>age-restricted\<close> included, it returns the generic
  "Download failed: ..." message.
\<close>

theorem auth_classification:
  "((probe env = Inl e
       \<or> (\<exists>info. probe env = Inr info \<and> \<not> too_long (info_duration info)
                  \<and> fetch env = Some e))
      \<and> (\<exists>k \<in> set [''login'', ''sign in'', ''private'', ''unavailable'', ''members only'',
                      ''age-restricted'']. py_in k (lower e))
      \<longrightarrow> fst (download_youtube_video env url quality) =
            Error (if cookies_exist env
                   then ''Video requires authentication. Please update your YouTube cookies file.''
                   else ''Video requires authentication. Please add your YouTube cookies file.''))
   \<and> (probe env = Inl e \<or> (\<exists>info. probe env = Inr info \<and> fetch env = Some e)
      \<longrightarrow> fst (download_instagram_content env url) =
            (if \<exists>k \<in> set [''login'', ''sign in'', ''private'', ''unavailable'']. py_in k (lower e)
             then Error (if cookies_exist env
                         then ''Content requires authentication. Please update your Instagram cookies file.''
                         else ''Content requires authentication. Please add your Instagram cookies file.'')
             else Error (''Download failed: '' @ e)))"
proof -
  have y: "(\<exists>k \<in> set [''login'', ''sign in'', ''private'', ''unavailable'', ''members only'',
                        ''age-restricted'']. py_in k (lower e))
           = any_keyword youtube_auth_keywords (lower e)"
    by (simp add: any_keyword_def youtube_auth_keywords_def)
  have i: "(\<exists>k \<in> set [''login'', ''sign in'', ''private'', ''unavailable'']. py_in k (lower e))
           = any_keyword instagram_auth_keywords (lower e)"
    by (simp add: any_keyword_def instagram_auth_keywords_def)
  show ?thesis
    unfolding y i
    using youtube_error_auth [of e env] instagram_error_auth [of e env]
          instagram_error_other [of e env]
    by (auto simp: download_youtube_video_def download_instagram_content_def Let_def)
qed

theorem auth_classification_witness:
  "download_youtube_video (sample_env\<lparr>probe := Inl ''ERROR: Sign in to confirm your age''\<rparr>)
     ''https://youtu.be/abc'' sample_quality =
     (Error ''Video requires authentication. Please update your YouTube cookies file.'',
      [ExtractInfo sample_opts ''https://youtu.be/abc''])
   \<and> fst (download_instagram_content
            (sample_env\<lparr>cookies_exist := False, probe := Inl ''This account is private''\<rparr>)
            ''https://www.instagram.com/p/x'') =
       Error ''Content requires authentication. Please add your Instagram cookies file.''
   \<and> fst (download_instagram_content
            (sample_env\<lparr>probe := Inl ''This video is age-restricted''\<rparr>)
            ''https://www.instagram.com/p/x'') =
       Error ''Download failed: This video is age-restricted''"
  using auth_classification
          [of "sample_env\<lparr>probe := Inl ''ERROR: Sign in to confirm your age''\<rparr>"
              "''ERROR: Sign in to confirm your age''" "''https://youtu.be/abc''" sample_quality]
        auth_classification
          [of "sample_env\<lparr>cookies_exist := False, probe := Inl ''This account is private''\<rparr>"
              "''This account is private''" "''https://www.instagram.com/p/x''" sample_quality]
        auth_classification
          [of "sample_env\<lparr>probe := Inl ''This video is age-restricted''\<rparr>"
              "''This video is age-restricted''" "''https://www.instagram.com/p/x''" sample_quality]
  by (simp add: sample_defs eval_defs)

text \<open>Claim C9 as stated fails. The Instagram adapter does not treat \<open>members only\<close> or
  \<open>age-restricted\<close> as an authentication error: each text below contains the keyword,
  and the result is the generic failure.\<close>

theorem instagram_members_only_generic:
  "py_in ''members only'' (lower ''ERROR: This post is Members Only'')
   \<and> download_instagram_content (sample_env\<lparr>probe := Inl ''ERROR: This post is Members Only''\<rparr>)
       ''https://www.instagram.com/p/x'' =
       (Error ''Download failed: ERROR: This post is Members Only'',
        [ExtractInfo
           \<lparr>format_spec = ''best[ext=mp4]/best'', outtmpl = ''/tmp/dl/%(id)s.%(ext)s'',
            cookiefile = Some ''instagram.com_cookies.txt'', extract_audio = False\<rparr>
           ''https://www.instagram.com/p/x''])
   \<and> py_in ''age-restricted'' (lower ''Age-Restricted content'')
   \<and> fst (download_instagram_content (sample_env\<lparr>probe := Inl ''Age-Restricted content''\<rparr>)
            ''https://www.instagram.com/p/x'') =
       Error ''Download failed: Age-Restricted content''"
  by (simp add: sample_defs eval_defs)

section \<open>Traces\<close>

lemma uploads_append [simp]: "uploads (xs @ ys) = uploads xs @ uploads ys"
  by (induction xs rule: uploads.induct) auto

lemma uploads_Ydl [simp]: "uploads (map Ydl cs) = []"
  by (induction cs) auto

lemma removes_append [simp]: "removes (xs @ ys) = removes xs @ removes ys"
  by (induction xs rule: removes.induct) auto

lemma removes_Ydl [simp]: "removes (map Ydl cs) = []"
  by (induction cs) auto

lemma messages_append [simp]: "messages (xs @ ys) = messages xs @ messages ys"
  by (induction xs rule: messages.induct) auto

lemma messages_Ydl [simp]: "messages (map Ydl cs) = []"
  by (induction cs) auto

lemma waits_append [simp]: "waits (xs @ ys) = waits xs @ waits ys"
  by (induction xs rule: waits.induct) auto

lemma waits_Ydl [simp]: "waits (map Ydl cs) = []"
  by (induction cs) auto

lemma downloads_append [simp]: "downloads (xs @ ys) = downloads xs @ downloads ys"
  by (induction xs rule: downloads.induct) auto

section \<open>The primary-platform orchestrator\<close>

lemma sample_not_timed_out:
  "\<not> timed_out (sample_env\<lparr>file_size := n, upload := u\<rparr>)"
  by (simp add: sample_env_def)

lemma sample_download:
  "download_youtube_video (sample_env\<lparr>file_size := n, upload := u\<rparr>) sample_url sample_quality =
     (Success ''/tmp/dl/abc_136.mp4'' ''Clip'' Video,
      [ExtractInfo sample_opts sample_url, Download sample_opts sample_url])"
  by (simp add: sample_defs eval_defs)

lemma attempts: "[0..<max_retries] = [0, 1, 2]"
  by (simp add: max_retries_def upt_rec)

lemma retry_uploads:
  "\<exists>n. n \<le> length atts \<and> (atts \<noteq> [] \<longrightarrow> 1 \<le> n) \<and>
       uploads (fst (upload_retry env fp t k atts)) = replicate n (small_call fp t k)"
proof (induction atts)
  case Nil
  then show ?case by simp
next
  case (Cons a atts)
  then obtain n where n: "n \<le> length atts"
      "uploads (fst (upload_retry env fp t k atts)) = replicate n (small_call fp t k)"
    by blast
  show ?case
  proof (cases "upload env a")
    case Sent
    then show ?thesis by (intro exI [of _ 1]) simp
  next
    case (Raised e)
    show ?thesis
    proof (cases "is_timeout e \<and> a < max_retries - 1")
      case True
      with Raised n show ?thesis
        by (intro exI [of _ "Suc n"]) (simp add: split_beta)
    next
      case False
      with Raised show ?thesis
        by (intro exI [of _ 1]) auto
    qed
  qed
qed

lemma retry_no_failed_after:
  "FailedAfter n s \<notin> set (messages (fst (upload_retry env fp t k atts)))"
  by (induction atts) (auto split: upload_outcome.splits prod.splits)

lemma retry_not_exhausted:
  "atts \<noteq> [] \<Longrightarrow> \<not> last atts < max_retries - 1 \<Longrightarrow>
   snd (upload_retry env fp t k atts) \<noteq> Finished False"
  by (induction atts) (auto simp: split_beta split: upload_outcome.splits if_splits)

lemma deliver_no_failed_after:
  "FailedAfter n s \<notin> set (messages (deliver_youtube env data q fp t k))"
proof -
  have a: "snd (upload_retry env fp t k [0..<max_retries]) \<noteq> Finished False"
    using retry_not_exhausted [of "[0,1,2]" env fp t k] unfolding attempts
    by (simp add: max_retries_def del: upload_retry.simps)
  have b: "FailedAfter n s \<notin> set (messages (fst (upload_retry env fp t k [0..<max_retries])))"
    by (rule retry_no_failed_after)
  show ?thesis
    using a b
    by (auto simp: deliver_youtube_def Let_def
             split: upload_outcome.splits prod.splits loop_exit.splits)
qed

lemma never_failed_after:
  "FailedAfter n s \<notin> set (messages (process_youtube_download env data url q))"
  using deliver_no_failed_after
  by (auto simp: process_youtube_download_def split: prod.splits dl_result.splits)


lemma process_success:
  assumes "\<not> timed_out env"
    and "download_youtube_video env url quality = (Success file_path title kind, calls)"
  shows "process_youtube_download env data url quality =
           [SendAction, Edit Downloading, WaitFor 300] @ map Ydl calls @
           deliver_youtube env data quality file_path title kind"
  using assms by (simp add: process_youtube_download_def)

lemma deliver_small_uploads:
  assumes "file_size env \<le> small_limit"
  shows "\<exists>n. 1 \<le> n \<and> n \<le> 3 \<and>
           uploads (deliver_youtube env data quality fp t k) = replicate n (small_call fp t k)"
proof -
  obtain n where n: "n \<le> length [0..<max_retries]" "1 \<le> n"
      "uploads (fst (upload_retry env fp t k [0..<max_retries])) = replicate n (small_call fp t k)"
    using retry_uploads [of "[0..<max_retries]" env fp t k] by (auto simp: max_retries_def)
  have "small_limit \<le> max_size"
    by (simp add: small_limit_def max_size_def)
  with assms n show ?thesis
    by (intro exI [of _ n])
       (auto simp: deliver_youtube_def Let_def max_retries_def
             split: prod.splits loop_exit.splits)
qed

lemma deliver_large_uploads:
  assumes "small_limit < file_size env" and "file_size env \<le> max_size"
  shows "uploads (deliver_youtube env data quality fp t k) = [large_call fp t k (file_size env)]"
  using assms
  by (auto simp: deliver_youtube_def Let_def split: upload_outcome.splits)

lemma deliver_too_large:
  assumes "max_size < file_size env"
  shows "uploads (deliver_youtube env data quality fp t k) = []"
    and "last (deliver_youtube env data quality fp t k) = Edit TooLarge2GB"
  using assms
  by (auto simp: deliver_youtube_def Let_def)

lemma kind_audio_iff:
  "download_youtube_video env url quality = (Success file_path title kind, calls) \<Longrightarrow>
   kind = Audio \<longleftrightarrow> quality = ''bestaudio''"
  by (auto simp: download_youtube_video_def youtube_error_def youtube_locate_def Let_def
           split: sum.splits option.splits if_splits)

lemma quality_map_not_bestaudio:
  "quality_lookup k = Inr spec \<Longrightarrow> spec \<noteq> ''bestaudio''"
  by (auto simp: quality_lookup_def quality_map_def split: if_splits)


lemma button_callback_shape:
  "button_callback env data = [Answer]
   \<or> button_callback env data = [Answer, Edit InvalidButtonData]
   \<or> (\<exists>k. button_callback env data = [Answer, Edit StartingYoutube, Raise (KeyError k)])
   \<or> (\<exists>k url quality. quality_lookup k = Inr quality \<and>
          button_callback env data =
            Answer # Edit StartingYoutube # process_youtube_download env data url quality)"
proof (cases "startswith data ''yt_''")
  case False
  then show ?thesis
    by (simp add: button_callback_def)
next
  case yt: True
  show ?thesis
  proof (cases "\<exists>p k url r. py_splitn CHR ''_'' 2 data = p # k # url # r")
    case False
    then have "button_callback env data = [Answer, Edit InvalidButtonData]"
      using yt by (auto simp: button_callback_def split: list.splits)
    then show ?thesis
      by simp
  next
    case True
    then obtain p k url r where ps: "py_splitn CHR ''_'' 2 data = p # k # url # r"
      by blast
    show ?thesis
    proof (cases "quality_lookup k")
      case (Inl err)
      then have "err = KeyError k"
        by (auto simp: quality_lookup_def split: option.splits)
      with Inl ps yt have "button_callback env data =
          [Answer, Edit StartingYoutube, Raise (KeyError k)]"
        by (simp add: button_callback_def)
      then show ?thesis
        by blast
    next
      case (Inr quality)
      with ps yt have "button_callback env data =
          Answer # Edit StartingYoutube # process_youtube_download env data url quality"
        by (simp add: button_callback_def)
      with Inr show ?thesis
        by blast
    qed
  qed
qed

text \<open>
  Claim C1. \<^verbatim>\<open>button_callback\<close>, the only caller, passes \<^verbatim>\<open>process_youtube_download\<close> an
  entry of \<open>quality_map\<close> as format specifier (lemma \<open>button_callback_shape\<close>). For every
  such request whose download succeeds, the orchestrator routes by the observed size. Up
  to 50 MiB it makes between one and three upload calls, all of them the typed-media call
  (\<^verbatim>\<open>reply_video\<close>, or \<^verbatim>\<open>reply_audio\<close> for kind audio). Above 50 MiB and up to 2 GiB it
  makes exactly one upload call, \<^verbatim>\<open>reply_document\<close>. Above 2 GiB it makes no upload call
  and ends with the too-large message.
\<close>

theorem size_routing:
  assumes "quality_lookup k = Inr quality"
    and "\<not> timed_out env"
    and "download_youtube_video env url quality = (Success file_path title kind, calls)"
  shows "(file_size env \<le> 50 * 1024 * 1024 \<longrightarrow>
            (\<exists>n. 1 \<le> n \<and> n \<le> 3 \<and>
               uploads (process_youtube_download env data url quality) =
                 replicate n (case kind of Video \<Rightarrow> ReplyVideo file_path title
                                         | Audio \<Rightarrow> ReplyAudio file_path title None)))
       \<and> (50 * 1024 * 1024 < file_size env \<and> file_size env \<le> 2 * 1024 * 1024 * 1024 \<longrightarrow>
            uploads (process_youtube_download env data url quality) =
              [ReplyDocument file_path title (file_size env) (take_chars 50 title @ ''.mp4'')])
       \<and> (2 * 1024 * 1024 * 1024 < file_size env \<longrightarrow>
            uploads (process_youtube_download env data url quality) = []
            \<and> last (process_youtube_download env data url quality) = Edit TooLarge2GB)"
proof -
  let ?d = "deliver_youtube env data quality file_path title kind"
  have tr: "process_youtube_download env data url quality =
              [SendAction, Edit Downloading, WaitFor 300] @ map Ydl calls @ ?d"
    by (rule process_success [OF assms(2,3)])
  have video: "kind = Video"
    using kind_audio_iff [OF assms(3)] quality_map_not_bestaudio [OF assms(1)]
    by (cases kind) simp_all
  have ne: "?d \<noteq> []"
    by (simp add: deliver_youtube_def Let_def)
  have small: "file_size env \<le> 50 * 1024 * 1024 \<longrightarrow>
      (\<exists>n. 1 \<le> n \<and> n \<le> 3 \<and> uploads ?d = replicate n (small_call file_path title kind))"
    using deliver_small_uploads [of env data quality file_path title kind]
    by (simp add: small_limit_def)
  have large: "50 * 1024 * 1024 < file_size env \<and> file_size env \<le> 2 * 1024 * 1024 * 1024 \<longrightarrow>
      uploads ?d = [large_call file_path title kind (file_size env)]"
    using deliver_large_uploads [of env data quality file_path title kind]
    by (simp add: small_limit_def max_size_def)
  have huge: "2 * 1024 * 1024 * 1024 < file_size env \<longrightarrow>
      uploads ?d = [] \<and> last ?d = Edit TooLarge2GB"
    using deliver_too_large [of env data quality file_path title kind]
    by (simp add: max_size_def)
  show ?thesis
    using small large huge ne video
    by (simp add: tr small_call_def large_call_def)
qed

theorem size_routing_witness:
  "(\<exists>n. 1 \<le> n \<and> n \<le> 3 \<and>
      uploads (process_youtube_download
                 (sample_env\<lparr>file_size := 10 * 1024 * 1024, upload := (\<lambda>_. Sent)\<rparr>)
                 sample_data sample_url sample_quality) =
        replicate n (ReplyVideo ''/tmp/dl/abc_136.mp4'' ''Clip''))
   \<and> uploads (process_youtube_download
                (sample_env\<lparr>file_size := 60 * 1024 * 1024, upload := (\<lambda>_. Sent)\<rparr>)
                sample_data sample_url sample_quality) =
        [ReplyDocument ''/tmp/dl/abc_136.mp4'' ''Clip'' (60 * 1024 * 1024) ''Clip.mp4'']
   \<and> uploads (process_youtube_download
                (sample_env\<lparr>file_size := 3 * 1024 * 1024 * 1024, upload := (\<lambda>_. Sent)\<rparr>)
                sample_data sample_url sample_quality) = []
   \<and> last (process_youtube_download
             (sample_env\<lparr>file_size := 3 * 1024 * 1024 * 1024, upload := (\<lambda>_. Sent)\<rparr>)
             sample_data sample_url sample_quality) = Edit TooLarge2GB"
proof -
  have q: "quality_lookup ''best'' = Inr sample_quality"
    by (simp add: quality_lookup_def quality_map_def sample_quality_def)
  show ?thesis
    using size_routing [OF q sample_not_timed_out [where n = "10 * 1024 * 1024" and u = "\<lambda>_. Sent"]
                           sample_download [where n = "10 * 1024 * 1024" and u = "\<lambda>_. Sent"],
                        where data = sample_data]
          size_routing [OF q sample_not_timed_out [where n = "60 * 1024 * 1024" and u = "\<lambda>_. Sent"]
                           sample_download [where n = "60 * 1024 * 1024" and u = "\<lambda>_. Sent"],
                        where data = sample_data]
          size_routing [OF q sample_not_timed_out
                             [where n = "3 * 1024 * 1024 * 1024" and u = "\<lambda>_. Sent"]
                           sample_download
                             [where n = "3 * 1024 * 1024 * 1024" and u = "\<lambda>_. Sent"],
                        where data = sample_data]
    by (simp add: sample_env_def is_continuation_def)
qed

lemma retry_three_timeouts:
  assumes "upload env 0 = Raised e0" "is_timeout e0"
    and "upload env 1 = Raised e1" "is_timeout e1"
    and "upload env 2 = Raised e2" "is_timeout e2"
  shows "upload_retry env fp t k [0..<max_retries] =
           ([Upload (small_call fp t k), Edit (Retrying 1 (file_size env)), Sleep 2,
             Upload (small_call fp t k), Edit (Retrying 2 (file_size env)), Sleep 2,
             Upload (small_call fp t k), Edit (MaybeUploading (file_size env)), Sleep 10],
            Returned)"
  unfolding attempts using assms by (simp add: max_retries_def)

text \<open>
  Claim C2, as the code has it. On the small-file path (at most 50 MiB), when all three
  upload attempts fail with timeout-flavoured errors, the orchestrator makes exactly three
  upload calls, all typed-media calls, and the last message is the ambiguous "may still be
  uploading" one. The message "Upload failed after 3 attempts" is not sent; no request
  ever sends it.
\<close>

theorem three_timeouts_outcome:
  assumes "\<not> timed_out env"
    and "download_youtube_video env url quality = (Success file_path title kind, calls)"
    and "file_size env \<le> 50 * 1024 * 1024"
    and "upload env 0 = Raised e0" "is_timeout e0"
    and "upload env 1 = Raised e1" "is_timeout e1"
    and "upload env 2 = Raised e2" "is_timeout e2"
  shows "length (uploads (process_youtube_download env data url quality)) = 3
       \<and> set (uploads (process_youtube_download env data url quality)) =
            {case kind of Video \<Rightarrow> ReplyVideo file_path title
                        | Audio \<Rightarrow> ReplyAudio file_path title None}
       \<and> last (messages (process_youtube_download env data url quality)) =
            MaybeUploading (file_size env)
       \<and> (\<forall>n s. FailedAfter n s \<notin> set (messages (process_youtube_download env data url quality)))"
proof -
  let ?tr = "process_youtube_download env data url quality"
  let ?d = "deliver_youtube env data quality file_path title kind"
  have tr: "?tr = [SendAction, Edit Downloading, WaitFor 300] @ map Ydl calls @ ?d"
    by (rule process_success [OF assms(1,2)])
  have small: "\<not> max_size < file_size env" "\<not> small_limit < file_size env"
    using assms(3) by (simp_all add: max_size_def small_limit_def)
  have loop: "upload_retry env file_path title kind [0..<max_retries] =
           ([Upload (small_call file_path title kind), Edit (Retrying 1 (file_size env)), Sleep 2,
             Upload (small_call file_path title kind), Edit (Retrying 2 (file_size env)), Sleep 2,
             Upload (small_call file_path title kind), Edit (MaybeUploading (file_size env)), Sleep 10],
            Returned)"
    by (rule retry_three_timeouts [OF assms(4-9)])
  have u: "uploads ?d = replicate 3 (small_call file_path title kind)"
    using small by (simp add: deliver_youtube_def Let_def loop numeral_3_eq_3)
  have m: "last (messages ?d) = MaybeUploading (file_size env)"
    using small by (simp add: deliver_youtube_def Let_def loop)
  have mne: "messages ?d \<noteq> []"
    by (simp add: deliver_youtube_def Let_def)
  have "length (uploads ?tr) = 3"
    by (simp add: tr u)
  moreover have "set (uploads ?tr) = {small_call file_path title kind}"
    by (simp add: tr u)
  moreover have "last (messages ?tr) = MaybeUploading (file_size env)"
    using m mne by (simp add: tr)
  moreover have "\<forall>n s. FailedAfter n s \<notin> set (messages ?tr)"
    using never_failed_after by blast
  ultimately show ?thesis
    by (simp add: small_call_def)
qed


theorem three_timeouts_outcome_witness:
  "length (uploads (process_youtube_download
                      (sample_env\<lparr>file_size := 10 * 1024 * 1024,
                                  upload := (\<lambda>_. Raised ''Timed out'')\<rparr>)
                      sample_data sample_url sample_quality)) = 3
   \<and> set (uploads (process_youtube_download
                     (sample_env\<lparr>file_size := 10 * 1024 * 1024,
                                 upload := (\<lambda>_. Raised ''Timed out'')\<rparr>)
                     sample_data sample_url sample_quality)) =
        {ReplyVideo ''/tmp/dl/abc_136.mp4'' ''Clip''}
   \<and> last (messages (process_youtube_download
                       (sample_env\<lparr>file_size := 10 * 1024 * 1024,
                                   upload := (\<lambda>_. Raised ''Timed out'')\<rparr>)
                       sample_data sample_url sample_quality)) =
        MaybeUploading (10 * 1024 * 1024)"
proof -
  let ?env = "sample_env\<lparr>file_size := 10 * 1024 * 1024, upload := (\<lambda>_. Raised ''Timed out'')\<rparr>"
  have sz: "file_size ?env \<le> 50 * 1024 * 1024"
    by (simp add: sample_env_def)
  have up: "upload ?env i = Raised ''Timed out''" for i
    by (simp add: sample_env_def)
  have to: "is_timeout ''Timed out''"
    by (simp add: is_timeout_def lower_def lower_char_def)
  show ?thesis
    using three_timeouts_outcome [OF sample_not_timed_out sample_download sz up to up to up to,
                                  where data = sample_data]
    by (simp add: sample_env_def)
qed

text \<open>Claim C2 as stated fails. Three timeouts on a 10 MiB file: three upload calls, then the ambiguous message; no
  message naming the attempt count.\<close>

theorem three_timeouts_no_attempt_count:
  "length (uploads (process_youtube_download
                      (sample_env\<lparr>upload := (\<lambda>_. Raised ''Timed out'')\<rparr>)
                      sample_data sample_url sample_quality)) = 3
   \<and> messages (process_youtube_download
                 (sample_env\<lparr>upload := (\<lambda>_. Raised ''Timed out'')\<rparr>)
                 sample_data sample_url sample_quality) =
        [Downloading, Downloaded 10485760 ''136+140/best[height<=720]/18'', Uploading 10485760,
         Retrying 1 10485760, Retrying 2 10485760, MaybeUploading 10485760]
   \<and> FailedAfter 3 10485760 \<notin>
        set (messages (process_youtube_download
                         (sample_env\<lparr>upload := (\<lambda>_. Raised ''Timed out'')\<rparr>)
                         sample_data sample_url sample_quality))"
  by (simp add: sample_defs eval_defs)

lemma retry_third_reached:
  assumes "length (uploads (fst (upload_retry env fp t k [0..<max_retries]))) = 3"
  shows "\<exists>e0 e1. upload env 0 = Raised e0 \<and> is_timeout e0 \<and> upload env 1 = Raised e1 \<and> is_timeout e1"
  using assms unfolding attempts
  by (auto simp: max_retries_def split: upload_outcome.splits if_splits)

lemma deliver_small_unfold:
  assumes "file_size env \<le> 50 * 1024 * 1024"
  shows "deliver_youtube env data quality fp t k =
           Edit (Downloaded (file_size env) quality) #
           (if 2 * file_size env > 3 * (expected_mb data * 1024 * 1024)
            then [Edit (LargerThanExpected (file_size env) (expected_mb data))] else []) @
           Edit (Uploading (file_size env)) #
           (case upload_retry env fp t k [0..<max_retries] of
              (evs, Returned) \<Rightarrow> evs
            | (evs, Finished ok) \<Rightarrow>
                evs @ [Edit (if ok then Completed else FailedAfter max_retries (file_size env)),
                       Remove fp])"
  using assms by (simp add: deliver_youtube_def Let_def max_size_def small_limit_def)

text \<open>
  Claim C3. On the small-file path, when the third upload attempt is made and fails with
  a timeout-flavoured error, the trace ends with that upload call, the ambiguous
  "may still be uploading" message and a 10-second sleep: no further upload call, and no
  definite failure message (neither "Upload failed: ..." nor "Upload failed after ...
  attempts") is sent.
\<close>

theorem final_timeout_is_ambiguous:
  assumes "\<not> timed_out env"
    and "download_youtube_video env url quality = (Success file_path title kind, calls)"
    and "file_size env \<le> 50 * 1024 * 1024"
    and "length (uploads (process_youtube_download env data url quality)) = 3"
    and "upload env 2 = Raised e" and "is_timeout e"
  shows "(\<exists>pre. process_youtube_download env data url quality =
              pre @ [Upload (case kind of Video \<Rightarrow> ReplyVideo file_path title
                                        | Audio \<Rightarrow> ReplyAudio file_path title None),
                     Edit (MaybeUploading (file_size env)), Sleep 10]
              \<and> length (uploads pre) = 2)
       \<and> (\<forall>x s. UploadFailed x s \<notin> set (messages (process_youtube_download env data url quality)))
       \<and> (\<forall>n s. FailedAfter n s \<notin> set (messages (process_youtube_download env data url quality)))"
proof -
  let ?tr = "process_youtube_download env data url quality"
  let ?d = "deliver_youtube env data quality file_path title kind"
  let ?c = "Upload (small_call file_path title kind)"
  let ?sz = "file_size env"
  have tr: "?tr = [SendAction, Edit Downloading, WaitFor 300] @ map Ydl calls @ ?d"
    by (rule process_success [OF assms(1,2)])
  have d: "?d = Edit (Downloaded ?sz quality) #
           (if 2 * ?sz > 3 * (expected_mb data * 1024 * 1024)
            then [Edit (LargerThanExpected ?sz (expected_mb data))] else []) @
           Edit (Uploading ?sz) #
           (case upload_retry env file_path title kind [0..<max_retries] of
              (evs, Returned) \<Rightarrow> evs
            | (evs, Finished ok) \<Rightarrow>
                evs @ [Edit (if ok then Completed else FailedAfter max_retries ?sz),
                       Remove file_path])"
    by (rule deliver_small_unfold [OF assms(3)])
  have "length (uploads (fst (upload_retry env file_path title kind [0..<max_retries]))) = 3"
    using assms(4) by (simp add: tr d split: prod.splits loop_exit.splits if_splits)
  then obtain e0 e1 where
      "upload env 0 = Raised e0" "is_timeout e0" "upload env 1 = Raised e1" "is_timeout e1"
    using retry_third_reached by blast
  then have loop: "upload_retry env file_path title kind [0..<max_retries] =
           ([?c, Edit (Retrying 1 ?sz), Sleep 2, ?c, Edit (Retrying 2 ?sz), Sleep 2,
             ?c, Edit (MaybeUploading ?sz), Sleep 10], Returned)"
    using retry_three_timeouts assms(5,6) by blast
  define pre where "pre = [SendAction, Edit Downloading, WaitFor 300] @ map Ydl calls @
           Edit (Downloaded ?sz quality) #
           (if 2 * ?sz > 3 * (expected_mb data * 1024 * 1024)
            then [Edit (LargerThanExpected ?sz (expected_mb data))] else []) @
           [Edit (Uploading ?sz), ?c, Edit (Retrying 1 ?sz), Sleep 2, ?c, Edit (Retrying 2 ?sz), Sleep 2]"
  have split: "?tr = pre @ [?c, Edit (MaybeUploading ?sz), Sleep 10]"
    by (simp add: tr d loop pre_def)
  have two: "length (uploads pre) = 2"
    by (simp add: pre_def)
  have nofail: "\<forall>x s. UploadFailed x s \<notin> set (messages ?tr)"
    by (simp add: tr d loop)
  have "\<forall>n s. FailedAfter n s \<notin> set (messages ?tr)"
    using never_failed_after by blast
  with split two nofail show ?thesis
    by (auto simp: small_call_def)
qed

theorem final_timeout_is_ambiguous_witness:
  "(\<exists>pre. process_youtube_download
             (sample_env\<lparr>file_size := 10 * 1024 * 1024,
                         upload := (\<lambda>_. Raised ''Request timeout'')\<rparr>)
             sample_data sample_url sample_quality =
           pre @ [Upload (ReplyVideo ''/tmp/dl/abc_136.mp4'' ''Clip''),
                  Edit (MaybeUploading (10 * 1024 * 1024)), Sleep 10]
           \<and> length (uploads pre) = 2)"
proof -
  let ?env = "sample_env\<lparr>file_size := 10 * 1024 * 1024,
                         upload := (\<lambda>_. Raised ''Request timeout'')\<rparr>"
  have sz: "file_size ?env \<le> 50 * 1024 * 1024"
    by (simp add: sample_env_def)
  have n: "length (uploads (process_youtube_download ?env sample_data sample_url sample_quality)) = 3"
    by (simp add: sample_defs eval_defs)
  have up: "upload ?env 2 = Raised ''Request timeout''"
    by (simp add: sample_env_def)
  have to: "is_timeout ''Request timeout''"
    by (simp add: is_timeout_def lower_def lower_char_def)
  show ?thesis
    using final_timeout_is_ambiguous [OF sample_not_timed_out sample_download sz n up to]
    by (simp add: sample_env_def)
qed

lemma retry_no_removes:
  "removes (fst (upload_retry env fp t k atts)) = []"
  by (induction atts) (auto simp: split_beta split: upload_outcome.splits)

lemma deliver_cleanup_at_most_once:
  "length (removes (deliver_youtube env data quality fp t k)) \<le> 1"
proof -
  obtain evs ex where r: "upload_retry env fp t k [0..<max_retries] = (evs, ex)"
    by (cases "upload_retry env fp t k [0..<max_retries]")
  then have "removes evs = []"
    using retry_no_removes [of env fp t k "[0..<max_retries]"] by simp
  then show ?thesis
    by (simp add: deliver_youtube_def Let_def r split: upload_outcome.splits loop_exit.splits)
qed

lemma cleanup_at_most_once:
  "length (removes (process_youtube_download env data url quality)) \<le> 1"
  using deliver_cleanup_at_most_once
  by (simp add: process_youtube_download_def split: prod.splits dl_result.splits)

text \<open>
  Claim C4 fails on the code. A 10 MiB file is downloaded, the first upload call raises
  an error that is not a timeout (\<open>Bad Request\<close>): the orchestrator reports the failure
  and returns, and \<^verbatim>\<open>os.remove\<close> is never called. The same happens on the small-file path
  after a timeout on the last attempt, on the large-file path after an error that is not
  a timeout, and for a file above 2 GiB.
\<close>

theorem cleanup_skipped_on_upload_failure:
  "fst (download_youtube_video (sample_env\<lparr>upload := (\<lambda>_. Raised ''Bad Request'')\<rparr>)
         sample_url sample_quality) = Success ''/tmp/dl/abc_136.mp4'' ''Clip'' Video
   \<and> uploads (process_youtube_download (sample_env\<lparr>upload := (\<lambda>_. Raised ''Bad Request'')\<rparr>)
                sample_data sample_url sample_quality) =
        [ReplyVideo ''/tmp/dl/abc_136.mp4'' ''Clip'']
   \<and> last (process_youtube_download (sample_env\<lparr>upload := (\<lambda>_. Raised ''Bad Request'')\<rparr>)
             sample_data sample_url sample_quality) =
        Edit (UploadFailed ''Bad Request'' 10485760)
   \<and> removes (process_youtube_download (sample_env\<lparr>upload := (\<lambda>_. Raised ''Bad Request'')\<rparr>)
                sample_data sample_url sample_quality) = []"
  by (simp add: sample_defs eval_defs)

text \<open>
  Claim C6. On the large-file path (above 50 MiB, at most 2 GiB) exactly one upload call
  is made. If it fails with a timeout-flavoured error, the last message says that the file
  may still be uploading in the background, and the local file is then removed. If it
  fails with any other error, the trace ends with the definite failure message, which
  carries the error text and the file size.
\<close>

theorem large_path_single_attempt:
  assumes "\<not> timed_out env"
    and "download_youtube_video env url quality = (Success file_path title kind, calls)"
    and "50 * 1024 * 1024 < file_size env" and "file_size env \<le> 2 * 1024 * 1024 * 1024"
  shows "length (uploads (process_youtube_download env data url quality)) = 1
       \<and> (\<forall>e. upload env 0 = Raised e \<and> is_timeout e \<longrightarrow>
             last (messages (process_youtube_download env data url quality)) =
               LargeMaybeUploading (file_size env)
             \<and> removes (process_youtube_download env data url quality) = [file_path]
             \<and> last (process_youtube_download env data url quality) = Remove file_path)
       \<and> (\<forall>e. upload env 0 = Raised e \<and> \<not> is_timeout e \<longrightarrow>
             last (process_youtube_download env data url quality) =
               Edit (LargeUploadFailed e (file_size env)))"
proof -
  let ?tr = "process_youtube_download env data url quality"
  let ?d = "deliver_youtube env data quality file_path title kind"
  let ?sz = "file_size env"
  have tr: "?tr = [SendAction, Edit Downloading, WaitFor 300] @ map Ydl calls @ ?d"
    by (rule process_success [OF assms(1,2)])
  have d: "?d = Edit (Downloaded ?sz quality) #
           (if 2 * ?sz > 3 * (expected_mb data * 1024 * 1024)
            then [Edit (LargerThanExpected ?sz (expected_mb data))] else []) @
           Edit (LargeUploading ?sz) # Upload (large_call file_path title kind ?sz) #
           (case upload env 0 of
              Sent \<Rightarrow> [Edit LargeCompleted, Remove file_path]
            | Raised error_msg \<Rightarrow>
                if is_timeout error_msg
                then [Edit (LargeMaybeUploading ?sz), Remove file_path]
                else [Edit (LargeUploadFailed error_msg ?sz)])"
    using assms(3,4) by (simp add: deliver_youtube_def Let_def max_size_def small_limit_def)
  show ?thesis
    by (auto simp: tr d split: upload_outcome.splits)
qed


theorem large_path_single_attempt_witness:
  "length (uploads (process_youtube_download
                      (sample_env\<lparr>file_size := 120 * 1024 * 1024,
                                  upload := (\<lambda>_. Raised ''Timed out'')\<rparr>)
                      sample_data sample_url sample_quality)) = 1
   \<and> last (messages (process_youtube_download
                       (sample_env\<lparr>file_size := 120 * 1024 * 1024,
                                   upload := (\<lambda>_. Raised ''Timed out'')\<rparr>)
                       sample_data sample_url sample_quality)) =
        LargeMaybeUploading (120 * 1024 * 1024)
   \<and> removes (process_youtube_download
                (sample_env\<lparr>file_size := 120 * 1024 * 1024,
                            upload := (\<lambda>_. Raised ''Timed out'')\<rparr>)
                sample_data sample_url sample_quality) = [''/tmp/dl/abc_136.mp4'']
   \<and> last (process_youtube_download
             (sample_env\<lparr>file_size := 120 * 1024 * 1024,
                         upload := (\<lambda>_. Raised ''Bad Request'')\<rparr>)
             sample_data sample_url sample_quality) =
        Edit (LargeUploadFailed ''Bad Request'' (120 * 1024 * 1024))"
proof -
  let ?a = "sample_env\<lparr>file_size := 120 * 1024 * 1024, upload := (\<lambda>_. Raised ''Timed out'')\<rparr>"
  let ?b = "sample_env\<lparr>file_size := 120 * 1024 * 1024, upload := (\<lambda>_. Raised ''Bad Request'')\<rparr>"
  have lo: "50 * 1024 * 1024 < file_size ?a" "50 * 1024 * 1024 < file_size ?b"
    by (simp_all add: sample_env_def)
  have hi: "file_size ?a \<le> 2 * 1024 * 1024 * 1024" "file_size ?b \<le> 2 * 1024 * 1024 * 1024"
    by (simp_all add: sample_env_def)
  have to: "is_timeout ''Timed out''" "\<not> is_timeout ''Bad Request''"
    by (simp_all add: is_timeout_def lower_def lower_char_def)
  show ?thesis
    using large_path_single_attempt [OF sample_not_timed_out sample_download lo(1) hi(1),
                                     where data = sample_data]
          large_path_single_attempt [OF sample_not_timed_out sample_download lo(2) hi(2),
                                     where data = sample_data]
          to
    by (simp add: sample_env_def)
qed

section \<open>The secondary-platform flow\<close>





end
